theory Spec2Isabelle
  imports Complex_Main "HOL-Library.Sublist"
begin

section \<open>Data model\<close>

text \<open>
  The adapter of \<^verbatim>\<open>src/agents/codebuddy-stream-adapter.ts\<close> turns the messages
  that the CodeBuddy SDK's \<^verbatim>\<open>query()\<close> yields into the events of an assistant
  message event stream. The repository holds two versions of the file: one that skips
  \<^verbatim>\<open>tool_use\<close> blocks and writes the conversation history into the prompt (the
  file at the path above), and one that forwards \<^verbatim>\<open>tool_use\<close> blocks as tool calls
  and hands the history over as a \<^verbatim>\<open>messages\<close> array. Both are embedded here; the
  names of the forwarding version carry the suffix \<open>_fwd\<close>.

  JavaScript numbers that count tokens are integers here, strings are lists of 8-bit
  characters, and a value of type \<^verbatim>\<open>unknown\<close> is a JSON value.
\<close>

datatype json =
    JNull
  | JBool bool
  | JNum int
  | JStr string
  | JArr "json list"
  | JObj "(string \<times> json) list"

text \<open>\<^verbatim>\<open>CodeBuddyContentBlock\<close>: text, tool\_use (id, name, input), tool\_result
  (tool\_use\_id, content).\<close>

datatype CodeBuddyContentBlock =
    TextBlock string
  | ToolUseBlock string string json
  | ToolResultBlock string json

record ResultUsage =
  input_tokens :: "int option"
  output_tokens :: "int option"
  cache_read_input_tokens :: "int option"
  cache_creation_input_tokens :: "int option"

text \<open>
  \<^verbatim>\<open>CodeBuddyMessage\<close>. An assistant message carries \<open>None\<close> when it has no
  \<^verbatim>\<open>message\<close> field or its inner message has no \<^verbatim>\<open>content\<close>; a result message
  carries its optional \<^verbatim>\<open>stop_reason\<close> and \<^verbatim>\<open>usage\<close>; \<open>OtherMsg\<close> stands
  for a message of any type other than assistant, result and system.
\<close>

datatype CodeBuddyMessage =
    AssistantMsg "CodeBuddyContentBlock list option"
  | ResultMsg "string option" "ResultUsage option"
  | SystemMsg
  | OtherMsg

text \<open>
  What the adapter sees of one call of the query function. The call itself may throw;
  otherwise it returns an asynchronous sequence, which yields messages and then either
  completes or throws while the next message is awaited. A thrown value is an
  \<^verbatim>\<open>Error\<close> with its message, or some other value with its \<^verbatim>\<open>String(err)\<close>
  rendering. Only upstream runs that come to an end are described by this type.
\<close>

datatype thrown = ErrorInstance string | NonError string

datatype completion = Completes | Throws thrown

datatype upstream =
    CallThrows thrown
  | Yields "CodeBuddyMessage list" completion

record CodeBuddyQueryOptions =
  opt_model :: string
  opt_permissionMode :: string
  opt_systemPrompt :: "string option"
  opt_maxTokens :: "int option"
  opt_temperature :: "real option"

record QueryParams =
  prompt :: string
  options :: CodeBuddyQueryOptions

type_synonym CodeBuddyQueryFn = "QueryParams \<Rightarrow> upstream"

text \<open>The host's context: messages with a role and an optional content, which is a
  string or an array of typed parts.\<close>

record ContentPart =
  part_type :: string
  part_text :: "string option"
  part_id :: "string option"
  part_name :: "string option"
  part_input :: "json option"
  part_tool_use_id :: "string option"
  part_content :: "json option"

datatype MessageContent =
    ContentString string
  | ContentArray "ContentPart list"

record ContextMessage =
  msg_role :: string
  msg_content :: "MessageContent option"

record Context =
  messages :: "ContextMessage list"
  systemPrompt :: "string option"

record Model =
  model_id :: string
  model_maxTokens :: int

record SimpleStreamOptions =
  so_maxTokens :: "int option"
  so_temperature :: "real option"

text \<open>The downstream side: usage counters, content items, assistant messages, events.
  The \<^verbatim>\<open>timestamp\<close> field of an assistant message is the wall clock at its
  creation and is left out.\<close>

record Cost =
  cost_input :: int
  cost_output :: int
  cost_cacheRead :: int
  cost_cacheWrite :: int
  cost_total :: int

record Usage =
  input :: int
  "output" :: int
  cacheRead :: int
  cacheWrite :: int
  totalTokens :: int
  cost :: Cost

datatype ContentItem =
    TextContent string
  | ToolCall string string json

datatype StopReason = Stop | Length | ToolUse

record AssistantMessage =
  role :: string
  content :: "ContentItem list"
  provider :: string
  model :: string
  api :: string
  stopReason :: StopReason
  usage :: Usage

text \<open>
  An event records the content of its message as it is when the event is pushed. (In
  the source the message of a block event holds the array \<^verbatim>\<open>accumulatedContent\<close>
  itself, which later blocks extend.)
\<close>

datatype AssistantMessageEvent =
    Start AssistantMessage
  | TextStart nat AssistantMessage
  | TextDelta nat string AssistantMessage
  | TextEnd nat string AssistantMessage
  | ToolcallStart nat AssistantMessage
  | ToolcallEnd nat ContentItem AssistantMessage
  | Done StopReason AssistantMessage
  | Error AssistantMessage

text \<open>
  The event stream is an object of the \<^verbatim>\<open>pi-ai\<close> library. The model records the
  calls the adapter makes on it: the events pushed, oldest first, and the number of
  calls of \<^verbatim>\<open>end()\<close>.
\<close>

record EventStream =
  pushed :: "AssistantMessageEvent list"
  ended :: nat

definition createAssistantMessageEventStream :: EventStream where
  "createAssistantMessageEventStream = \<lparr>pushed = [], ended = 0\<rparr>"

definition push :: "AssistantMessageEvent \<Rightarrow> EventStream \<Rightarrow> EventStream" where
  "push e es = es\<lparr>pushed := pushed es @ [e]\<rparr>"

definition end_stream :: "EventStream \<Rightarrow> EventStream" where
  "end_stream es = es\<lparr>ended := Suc (ended es)\<rparr>"

section \<open>Helpers shared by both versions\<close>

text \<open>The operator \<^verbatim>\<open>??\<close>.\<close>

fun nullish :: "'a option \<Rightarrow> 'a \<Rightarrow> 'a" where
  "nullish None d = d"
| "nullish (Some v) d = v"

definition isCodeBuddyProvider :: "string \<Rightarrow> bool" where
  "isCodeBuddyProvider p = (p = ''codebuddy'')"

definition extractSystemPrompt :: "Context \<Rightarrow> string option" where
  "extractSystemPrompt context = systemPrompt context"

definition zeroCost :: Cost where
  "zeroCost = \<lparr>cost_input = 0, cost_output = 0, cost_cacheRead = 0, cost_cacheWrite = 0,
     cost_total = 0\<rparr>"

definition createDefaultUsage :: Usage where
  "createDefaultUsage = \<lparr>input = 0, output = 0, cacheRead = 0, cacheWrite = 0,
     totalTokens = 0, cost = zeroCost\<rparr>"

definition createPartialMessage ::
  "ContentItem list \<Rightarrow> Usage option \<Rightarrow> string option \<Rightarrow> AssistantMessage" where
  "createPartialMessage c u modelId =
     \<lparr>role = ''assistant'', content = c, provider = ''codebuddy'',
      model = nullish modelId '''', api = ''anthropic-messages'', stopReason = Stop,
      usage = nullish u createDefaultUsage\<rparr>"

fun errorText :: "thrown \<Rightarrow> string" where
  "errorText (ErrorInstance m) = m"
| "errorText (NonError s) = s"

text \<open>The state of one translation: the stream and the three local variables of the
  asynchronous body.\<close>

record TranslationState =
  eventStream :: EventStream
  accumulatedContent :: "ContentItem list"
  contentIndex :: nat
  currentUsage :: Usage

definition emit :: "AssistantMessageEvent \<Rightarrow> TranslationState \<Rightarrow> TranslationState" where
  "emit e s = s\<lparr>eventStream := push e (eventStream s)\<rparr>"

definition initialState :: TranslationState where
  "initialState =
     \<lparr>eventStream = createAssistantMessageEventStream, accumulatedContent = [],
      contentIndex = 0,
      currentUsage = \<lparr>input = 0, output = 0, cacheRead = 0, cacheWrite = 0,
        totalTokens = 0, cost = zeroCost\<rparr>\<rparr>"

text \<open>The update of \<^verbatim>\<open>currentUsage\<close> from a result message that carries usage.\<close>

definition usageFromResult :: "ResultUsage \<Rightarrow> Usage" where
  "usageFromResult ru =
     \<lparr>input = nullish (input_tokens ru) 0,
      output = nullish (output_tokens ru) 0,
      cacheRead = nullish (cache_read_input_tokens ru) 0,
      cacheWrite = nullish (cache_creation_input_tokens ru) 0,
      totalTokens = nullish (input_tokens ru) 0 + nullish (output_tokens ru) 0,
      cost = zeroCost\<rparr>"

definition sdkNotFound :: EventStream where
  "sdkNotFound =
     end_stream (push (Error (createPartialMessage
       [TextContent ''CodeBuddy SDK not found. Install it with: pnpm add @tencent-ai/agent-sdk'']
       None None)) createAssistantMessageEventStream)"

text \<open>\<^verbatim>\<open>resolvedQueryFn\<close>: the injected function, or else what the dynamic import
  of the SDK gives (\<open>None\<close> when the import fails).\<close>

definition resolveQueryFn :: "'q option \<Rightarrow> 'q option \<Rightarrow> 'q option" where
  "resolveQueryFn queryFn sdk = (case queryFn of Some q \<Rightarrow> Some q | None \<Rightarrow> sdk)"

section \<open>The suppressing version: tool use skipped, history in the prompt\<close>

text \<open>The body of the loop over the blocks of an assistant message.\<close>

fun translateBlock :: "string \<Rightarrow> TranslationState \<Rightarrow> CodeBuddyContentBlock \<Rightarrow> TranslationState" where
  "translateBlock mid s (TextBlock t) =
     (let s1 = emit (TextStart (contentIndex s)
                 (createPartialMessage (accumulatedContent s) (Some (currentUsage s)) (Some mid))) s;
          s2 = emit (TextDelta (contentIndex s1) t
                 (createPartialMessage (accumulatedContent s1) (Some (currentUsage s1)) (Some mid))) s1;
          s3 = s2\<lparr>accumulatedContent := accumulatedContent s2 @ [TextContent t]\<rparr>;
          s4 = emit (TextEnd (contentIndex s3) t
                 (createPartialMessage (accumulatedContent s3) (Some (currentUsage s3)) (Some mid))) s3
      in s4\<lparr>contentIndex := Suc (contentIndex s4)\<rparr>)"
| "translateBlock mid s (ToolUseBlock i n a) = s"
| "translateBlock mid s (ToolResultBlock i c) = s"

text \<open>The body of the loop over the upstream messages.\<close>

fun translateMessage :: "string \<Rightarrow> TranslationState \<Rightarrow> CodeBuddyMessage \<Rightarrow> TranslationState" where
  "translateMessage mid s (AssistantMsg None) = s"
| "translateMessage mid s (AssistantMsg (Some blocks)) = foldl (translateBlock mid) s blocks"
| "translateMessage mid s (ResultMsg rawStopReason u) =
     (let s1 = (case u of None \<Rightarrow> s | Some ru \<Rightarrow> s\<lparr>currentUsage := usageFromResult ru\<rparr>);
          reason = (if rawStopReason = Some ''max_tokens'' then Length else Stop);
          finalMessage = \<lparr>role = ''assistant'', content = accumulatedContent s1,
            provider = ''codebuddy'', model = mid, api = ''anthropic-messages'',
            stopReason = reason, usage = currentUsage s1\<rparr>
      in emit (Done reason finalMessage) s1)"
| "translateMessage mid s SystemMsg = s"
| "translateMessage mid s OtherMsg = s"

text \<open>The \<^verbatim>\<open>try\<close>/\<^verbatim>\<open>catch\<close>/\<^verbatim>\<open>finally\<close> statement, given what the call of the
  query function does.\<close>

definition errorEvent :: "string \<Rightarrow> thrown \<Rightarrow> AssistantMessageEvent" where
  "errorEvent mid err = Error (createPartialMessage [TextContent (errorText err)] None (Some mid))"

fun translateStream :: "string \<Rightarrow> upstream \<Rightarrow> EventStream" where
  "translateStream mid (CallThrows err) =
     end_stream (eventStream (emit (errorEvent mid err) initialState))"
| "translateStream mid (Yields msgs fin) =
     (let s0 = emit (Start (createPartialMessage [] (Some (currentUsage initialState)) (Some mid)))
                 initialState;
          s = foldl (translateMessage mid) s0 msgs
      in case fin of
           Completes \<Rightarrow> end_stream (eventStream s)
         | Throws err \<Rightarrow> end_stream (eventStream (emit (errorEvent mid err) s)))"

subsection \<open>The prompt: history serialized into the prompt text\<close>

fun extractTextFromContent :: "MessageContent option \<Rightarrow> string" where
  "extractTextFromContent (Some (ContentString s)) = s"
| "extractTextFromContent (Some (ContentArray parts)) =
     concat (map (\<lambda>b. nullish (part_text b) '''')
       (filter (\<lambda>b. part_type b = ''text'' \<and> part_text b \<noteq> None) parts))"
| "extractTextFromContent None = ''''"

definition extractPromptFromContext :: "Context \<Rightarrow> string" where
  "extractPromptFromContext context =
     (let userMessages = filter (\<lambda>m. msg_role m = ''user'') (messages context)
      in if userMessages = [] then ''''
         else extractTextFromContent (msg_content (last userMessages)))"

text \<open>The loop \<^verbatim>\<open>for (let i = messages.length - 1; i >= 0; i--)\<close> that looks for
  the last user message: \<open>findLastUserIdx msgs n\<close> runs it from \<open>i = n - 1\<close> down and
  gives \<open>-1\<close> when it finds none.\<close>

fun findLastUserIdx :: "ContextMessage list \<Rightarrow> nat \<Rightarrow> int" where
  "findLastUserIdx msgs 0 = - 1"
| "findLastUserIdx msgs (Suc i) =
     (if msg_role (msgs ! i) = ''user'' then int i else findLastUserIdx msgs i)"

text \<open>
  \<^verbatim>\<open>JSON.stringify(serialized, null, 2)\<close> on an array of \<^verbatim>\<open>{role, content}\<close>
  objects, after ECMA-262 (SerializeJSONArray, SerializeJSONObject, QuoteJSONString)
  with the gap of two spaces. Strings being lists of 8-bit characters, the escape of
  lone surrogates has no counterpart.
\<close>

definition hexDigit :: "nat \<Rightarrow> char" where
  "hexDigit n = ''0123456789abcdef'' ! (n mod 16)"

definition quoteJSONChar :: "char \<Rightarrow> string" where
  "quoteJSONChar c =
     (if c = CHR 0x08 then [CHR 0x5C, CHR ''b'']
      else if c = CHR 0x09 then [CHR 0x5C, CHR ''t'']
      else if c = CHR 0x0A then [CHR 0x5C, CHR ''n'']
      else if c = CHR 0x0C then [CHR 0x5C, CHR ''f'']
      else if c = CHR 0x0D then [CHR 0x5C, CHR ''r'']
      else if c = CHR 0x22 then [CHR 0x5C, CHR 0x22]
      else if c = CHR 0x5C then [CHR 0x5C, CHR 0x5C]
      else if (of_char c :: nat) < 32
        then [CHR 0x5C, CHR ''u'', CHR ''0'', CHR ''0'',
              hexDigit (of_char c div 16), hexDigit (of_char c mod 16)]
      else [c])"

definition quoteJSONString :: "string \<Rightarrow> string" where
  "quoteJSONString s = [CHR 0x22] @ concat (map quoteJSONChar s) @ [CHR 0x22]"

fun joinWith :: "string \<Rightarrow> string list \<Rightarrow> string" where
  "joinWith sep [] = ''''"
| "joinWith sep [x] = x"
| "joinWith sep (x # y # ys) = x @ sep @ joinWith sep (y # ys)"

definition stringifyTurn :: "string \<times> string \<Rightarrow> string" where
  "stringifyTurn t =
     ''{'' @ [CHR 0x0A] @ ''    '' @ quoteJSONString ''role'' @ '': '' @ quoteJSONString (fst t)
       @ '','' @ [CHR 0x0A] @ ''    '' @ quoteJSONString ''content'' @ '': ''
       @ quoteJSONString (snd t) @ [CHR 0x0A] @ ''  }''"

definition JSON_stringify :: "(string \<times> string) list \<Rightarrow> string" where
  "JSON_stringify serialized =
     (if serialized = [] then ''[]''
      else ''['' @ [CHR 0x0A] @ ''  ''
        @ joinWith ('','' @ [CHR 0x0A] @ ''  '') (map stringifyTurn serialized)
        @ [CHR 0x0A] @ '']'')"

text \<open>The body of the loop over \<^verbatim>\<open>historyMessages\<close>.\<close>

definition pushTurn :: "(string \<times> string) list \<Rightarrow> ContextMessage \<Rightarrow> (string \<times> string) list" where
  "pushTurn serialized msg =
     (if msg_role msg = ''user'' \<or> msg_role msg = ''assistant''
      then (let text = extractTextFromContent (msg_content msg)
            in if text \<noteq> '''' then serialized @ [(msg_role msg, text)] else serialized)
      else serialized)"

definition buildPromptWithHistory :: "Context \<Rightarrow> string" where
  "buildPromptWithHistory context =
     (let msgs = messages context;
          currentPrompt = extractPromptFromContext context;
          lastUserIdx = findLastUserIdx msgs (length msgs)
      in if lastUserIdx \<le> 0 then currentPrompt
         else
           (let historyMessages = take (nat lastUserIdx) msgs;
                serialized = foldl pushTurn [] historyMessages
            in if length serialized = 0 then currentPrompt
               else
                 (let historyJson = JSON_stringify serialized
                  in ''<conversation_history>'' @ [CHR 0x0A] @ historyJson @ [CHR 0x0A]
                     @ ''</conversation_history>'' @ [CHR 0x0A, CHR 0x0A]
                     @ ''<current_message>'' @ [CHR 0x0A] @ currentPrompt @ [CHR 0x0A]
                     @ ''</current_message>'')))"

subsection \<open>The stream function\<close>

text \<open>
  \<open>createCodeBuddyStreamFn queryFn sdk\<close> is the stream function the source returns for
  the option \<open>queryFn\<close>, where \<open>sdk\<close> is what the dynamic import of the SDK gives when it
  is tried. The result is the stream after the asynchronous body has run.
\<close>

definition buildQueryOptions :: "Model \<Rightarrow> Context \<Rightarrow> SimpleStreamOptions option \<Rightarrow> CodeBuddyQueryOptions" where
  "buildQueryOptions m context streamOptions =
     \<lparr>opt_model = model_id m, opt_permissionMode = ''bypassPermissions'',
      opt_systemPrompt = extractSystemPrompt context,
      opt_maxTokens =
        Some (nullish (case streamOptions of None \<Rightarrow> None | Some so \<Rightarrow> so_maxTokens so)
                (model_maxTokens m)),
      opt_temperature = (case streamOptions of None \<Rightarrow> None | Some so \<Rightarrow> so_temperature so)\<rparr>"

text \<open>The argument of the call of \<^verbatim>\<open>resolvedQueryFn\<close>.\<close>

definition queryArgs :: "Model \<Rightarrow> Context \<Rightarrow> SimpleStreamOptions option \<Rightarrow> QueryParams" where
  "queryArgs m context streamOptions =
     (let p = buildPromptWithHistory context;
          queryOptions = buildQueryOptions m context streamOptions
      in \<lparr>prompt = p, options = queryOptions\<rparr>)"

definition createCodeBuddyStreamFn ::
  "CodeBuddyQueryFn option \<Rightarrow> CodeBuddyQueryFn option \<Rightarrow> Model \<Rightarrow> Context
     \<Rightarrow> SimpleStreamOptions option \<Rightarrow> EventStream" where
  "createCodeBuddyStreamFn queryFn sdk m context streamOptions =
     (case resolveQueryFn queryFn sdk of
        None \<Rightarrow> sdkNotFound
      | Some resolvedQueryFn \<Rightarrow>
          translateStream (model_id m) (resolvedQueryFn (queryArgs m context streamOptions)))"

section \<open>The forwarding version: tool use forwarded, history as turns\<close>

datatype InputContent =
    InputString string
  | InputBlocks "CodeBuddyContentBlock list"

record CodeBuddyInputMessage =
  in_role :: string
  in_content :: InputContent

record QueryParams_fwd =
  prompt_fwd :: string
  options_fwd :: CodeBuddyQueryOptions
  messages_fwd :: "CodeBuddyInputMessage list option"

type_synonym CodeBuddyQueryFn_fwd = "QueryParams_fwd \<Rightarrow> upstream"

text \<open>\<^verbatim>\<open>??\<close> on a value of type \<^verbatim>\<open>unknown\<close>: \<^verbatim>\<open>null\<close> counts as missing.\<close>

fun nullishJson :: "json option \<Rightarrow> json \<Rightarrow> json" where
  "nullishJson None d = d"
| "nullishJson (Some JNull) d = d"
| "nullishJson (Some v) d = v"

text \<open>The body of the loop over the parts of an array content.\<close>

definition convertPart :: "CodeBuddyContentBlock list \<Rightarrow> ContentPart \<Rightarrow> CodeBuddyContentBlock list" where
  "convertPart blocks b =
     (if part_type b = ''text'' \<and> part_text b \<noteq> None
        then blocks @ [TextBlock (nullish (part_text b) '''')]
      else if part_type b = ''tool_use''
        then blocks @ [ToolUseBlock (nullish (part_id b) '''') (nullish (part_name b) '''')
                         (nullishJson (part_input b) (JObj []))]
      else if part_type b = ''tool_result''
        then (let toolUseId = nullish (part_tool_use_id b) (nullish (part_id b) '''');
                  resultContent =
                    (case part_content b of
                       Some (JStr c) \<Rightarrow> JStr c
                     | Some (JArr c) \<Rightarrow> JArr c
                     | _ \<Rightarrow> JStr '''')
              in blocks @ [ToolResultBlock toolUseId resultContent])
      else blocks)"

definition convertContextMessageToCodeBuddy :: "ContextMessage \<Rightarrow> CodeBuddyInputMessage option" where
  "convertContextMessageToCodeBuddy msg =
     (if msg_role msg = ''system'' then None
      else if msg_role msg = ''tool'' then None
      else (case msg_content msg of
              Some (ContentString c) \<Rightarrow> Some \<lparr>in_role = msg_role msg, in_content = InputString c\<rparr>
            | Some (ContentArray parts) \<Rightarrow>
                (let blocks = foldl convertPart [] parts
                 in Some \<lparr>in_role = msg_role msg,
                      in_content = (if length blocks > 0 then InputBlocks blocks else InputString '''')\<rparr>)
            | None \<Rightarrow> Some \<lparr>in_role = msg_role msg, in_content = InputString ''''\<rparr>))"

definition convertContextToCodeBuddyMessages :: "Context \<Rightarrow> CodeBuddyInputMessage list" where
  "convertContextToCodeBuddyMessages context =
     foldl (\<lambda>result msg. case convertContextMessageToCodeBuddy msg of
                            None \<Rightarrow> result | Some converted \<Rightarrow> result @ [converted])
       [] (messages context)"

definition extractPromptFromContext_fwd :: "Context \<Rightarrow> string" where
  "extractPromptFromContext_fwd context =
     (let userMessages = filter (\<lambda>m. msg_role m = ''user'') (messages context)
      in if userMessages = [] then ''''
         else (case msg_content (last userMessages) of
                 Some (ContentString c) \<Rightarrow> c
               | Some (ContentArray parts) \<Rightarrow>
                   (case List.find (\<lambda>b. part_type b = ''text'' \<and> part_text b \<noteq> None) parts of
                      None \<Rightarrow> ''''
                    | Some textBlock \<Rightarrow> nullish (part_text textBlock) '''')
               | None \<Rightarrow> ''''))"

fun translateBlock_fwd :: "string \<Rightarrow> TranslationState \<Rightarrow> CodeBuddyContentBlock \<Rightarrow> TranslationState" where
  "translateBlock_fwd mid s (TextBlock t) =
     (let s1 = emit (TextStart (contentIndex s)
                 (createPartialMessage (accumulatedContent s) (Some (currentUsage s)) (Some mid))) s;
          s2 = emit (TextDelta (contentIndex s1) t
                 (createPartialMessage (accumulatedContent s1) (Some (currentUsage s1)) (Some mid))) s1;
          s3 = s2\<lparr>accumulatedContent := accumulatedContent s2 @ [TextContent t]\<rparr>;
          s4 = emit (TextEnd (contentIndex s3) t
                 (createPartialMessage (accumulatedContent s3) (Some (currentUsage s3)) (Some mid))) s3
      in s4\<lparr>contentIndex := Suc (contentIndex s4)\<rparr>)"
| "translateBlock_fwd mid s (ToolUseBlock i n a) =
     (let s1 = emit (ToolcallStart (contentIndex s)
                 (createPartialMessage (accumulatedContent s) (Some (currentUsage s)) (Some mid))) s;
          toolCall = ToolCall i n a;
          s2 = s1\<lparr>accumulatedContent := accumulatedContent s1 @ [toolCall]\<rparr>;
          s3 = emit (ToolcallEnd (contentIndex s2) toolCall
                 (createPartialMessage (accumulatedContent s2) (Some (currentUsage s2)) (Some mid))) s2
      in s3\<lparr>contentIndex := Suc (contentIndex s3)\<rparr>)"
| "translateBlock_fwd mid s (ToolResultBlock i c) = s"

fun translateMessage_fwd :: "string \<Rightarrow> TranslationState \<Rightarrow> CodeBuddyMessage \<Rightarrow> TranslationState" where
  "translateMessage_fwd mid s (AssistantMsg None) = s"
| "translateMessage_fwd mid s (AssistantMsg (Some blocks)) = foldl (translateBlock_fwd mid) s blocks"
| "translateMessage_fwd mid s (ResultMsg rawStopReason u) =
     (let s1 = (case u of None \<Rightarrow> s | Some ru \<Rightarrow> s\<lparr>currentUsage := usageFromResult ru\<rparr>);
          reason = (if rawStopReason = Some ''tool_use'' then ToolUse
                    else if rawStopReason = Some ''max_tokens'' then Length
                    else Stop);
          finalMessage = \<lparr>role = ''assistant'', content = accumulatedContent s1,
            provider = ''codebuddy'', model = mid, api = ''anthropic-messages'',
            stopReason = reason, usage = currentUsage s1\<rparr>
      in emit (Done reason finalMessage) s1)"
| "translateMessage_fwd mid s SystemMsg = s"
| "translateMessage_fwd mid s OtherMsg = s"

fun translateStream_fwd :: "string \<Rightarrow> upstream \<Rightarrow> EventStream" where
  "translateStream_fwd mid (CallThrows err) =
     end_stream (eventStream (emit (errorEvent mid err) initialState))"
| "translateStream_fwd mid (Yields msgs fin) =
     (let s0 = emit (Start (createPartialMessage [] (Some (currentUsage initialState)) (Some mid)))
                 initialState;
          s = foldl (translateMessage_fwd mid) s0 msgs
      in case fin of
           Completes \<Rightarrow> end_stream (eventStream s)
         | Throws err \<Rightarrow> end_stream (eventStream (emit (errorEvent mid err) s)))"

definition queryArgs_fwd :: "Model \<Rightarrow> Context \<Rightarrow> SimpleStreamOptions option \<Rightarrow> QueryParams_fwd" where
  "queryArgs_fwd m context streamOptions =
     (let msgs = convertContextToCodeBuddyMessages context;
          p = extractPromptFromContext_fwd context;
          queryOptions = buildQueryOptions m context streamOptions;
          historyMessages = butlast msgs
      in \<lparr>prompt_fwd = p, options_fwd = queryOptions,
          messages_fwd = (if length historyMessages > 0 then Some historyMessages else None)\<rparr>)"

definition createCodeBuddyStreamFn_fwd ::
  "CodeBuddyQueryFn_fwd option \<Rightarrow> CodeBuddyQueryFn_fwd option \<Rightarrow> Model \<Rightarrow> Context
     \<Rightarrow> SimpleStreamOptions option \<Rightarrow> EventStream" where
  "createCodeBuddyStreamFn_fwd queryFn sdk m context streamOptions =
     (case resolveQueryFn queryFn sdk of
        None \<Rightarrow> sdkNotFound
      | Some resolvedQueryFn \<Rightarrow>
          translateStream_fwd (model_id m) (resolvedQueryFn (queryArgs_fwd m context streamOptions)))"

section \<open>Notions used to state the properties\<close>

text \<open>Observations on events and on lists of pushed events.\<close>

fun isTerminal :: "AssistantMessageEvent \<Rightarrow> bool" where
  "isTerminal (Done r msg) = True"
| "isTerminal (Error msg) = True"
| "isTerminal e = False"


definition lastIsTerminal :: "AssistantMessageEvent list \<Rightarrow> bool" where
  "lastIsTerminal evs = (evs \<noteq> [] \<and> isTerminal (last evs))"

definition firstEvent :: "AssistantMessageEvent list \<Rightarrow> AssistantMessageEvent option" where
  "firstEvent evs = (case evs of [] \<Rightarrow> None | e # rest \<Rightarrow> Some e)"

text \<open>The assistant message an event carries.\<close>

fun eventMessage :: "AssistantMessageEvent \<Rightarrow> AssistantMessage" where
  "eventMessage (Start msg) = msg"
| "eventMessage (TextStart k msg) = msg"
| "eventMessage (TextDelta k d msg) = msg"
| "eventMessage (TextEnd k c msg) = msg"
| "eventMessage (ToolcallStart k msg) = msg"
| "eventMessage (ToolcallEnd k tc msg) = msg"
| "eventMessage (Done r msg) = msg"
| "eventMessage (Error msg) = msg"

text \<open>The usage of each done event, and the reason of each done event together with
  the stop reason of its final message.\<close>

fun doneUsage :: "AssistantMessageEvent \<Rightarrow> Usage list" where
  "doneUsage (Done r msg) = [usage msg]"
| "doneUsage e = []"

fun doneReason :: "AssistantMessageEvent \<Rightarrow> (StopReason \<times> StopReason) list" where
  "doneReason (Done r msg) = [(r, stopReason msg)]"
| "doneReason e = []"

text \<open>The kind and content index of each block event.\<close>

datatype BlockEventKind = KTextStart | KTextDelta | KTextEnd | KToolcallStart | KToolcallEnd

fun blockEventIndex :: "AssistantMessageEvent \<Rightarrow> (BlockEventKind \<times> nat) list" where
  "blockEventIndex (TextStart k msg) = [(KTextStart, k)]"
| "blockEventIndex (TextDelta k d msg) = [(KTextDelta, k)]"
| "blockEventIndex (TextEnd k c msg) = [(KTextEnd, k)]"
| "blockEventIndex (ToolcallStart k msg) = [(KToolcallStart, k)]"
| "blockEventIndex (ToolcallEnd k tc msg) = [(KToolcallEnd, k)]"
| "blockEventIndex e = []"

text \<open>The events a block with index \<open>k\<close> is expected to give, by kind and index.\<close>

fun blockGroup :: "nat \<Rightarrow> CodeBuddyContentBlock \<Rightarrow> (BlockEventKind \<times> nat) list" where
  "blockGroup k (TextBlock t) = [(KTextStart, k), (KTextDelta, k), (KTextEnd, k)]"
| "blockGroup k (ToolUseBlock i n a) = [(KToolcallStart, k), (KToolcallEnd, k)]"
| "blockGroup k (ToolResultBlock i c) = []"

text \<open>The shape of a text event: its kind with its delta or content.\<close>

datatype TextEventShape = ShStart | ShDelta string | ShEnd string | ShOther

fun textEventShape :: "AssistantMessageEvent \<Rightarrow> TextEventShape" where
  "textEventShape (TextStart k msg) = ShStart"
| "textEventShape (TextDelta k d msg) = ShDelta d"
| "textEventShape (TextEnd k c msg) = ShEnd c"
| "textEventShape e = ShOther"

text \<open>The delta payload of a text\_delta event.\<close>

fun textDeltas :: "AssistantMessageEvent \<Rightarrow> string list" where
  "textDeltas (TextDelta k d msg) = [d]"
| "textDeltas e = []"

text \<open>Observations on the upstream messages.\<close>

fun isTextBlock :: "CodeBuddyContentBlock \<Rightarrow> bool" where
  "isTextBlock (TextBlock t) = True"
| "isTextBlock b = False"

fun isToolUseBlock :: "CodeBuddyContentBlock \<Rightarrow> bool" where
  "isToolUseBlock (ToolUseBlock i n a) = True"
| "isToolUseBlock b = False"

fun messageBlocks :: "CodeBuddyMessage \<Rightarrow> CodeBuddyContentBlock list" where
  "messageBlocks (AssistantMsg (Some blocks)) = blocks"
| "messageBlocks m = []"

definition upstreamBlocks :: "CodeBuddyMessage list \<Rightarrow> CodeBuddyContentBlock list" where
  "upstreamBlocks msgs = concat (map messageBlocks msgs)"

fun isResult :: "CodeBuddyMessage \<Rightarrow> bool" where
  "isResult (ResultMsg r u) = True"
| "isResult m = False"

fun resultStopReason :: "CodeBuddyMessage \<Rightarrow> string option list" where
  "resultStopReason (ResultMsg r u) = [r]"
| "resultStopReason m = []"

fun resultUsage :: "CodeBuddyMessage \<Rightarrow> ResultUsage list" where
  "resultUsage (ResultMsg r (Some ru)) = [ru]"
| "resultUsage m = []"

text \<open>The usage data of the last result message of a list that carries any.\<close>

definition lastResultUsage :: "CodeBuddyMessage list \<Rightarrow> ResultUsage option" where
  "lastResultUsage msgs =
     (case rev (concat (map resultUsage msgs)) of [] \<Rightarrow> None | ru # rest \<Rightarrow> Some ru)"

definition endsWithResult :: "CodeBuddyMessage list \<Rightarrow> bool" where
  "endsWithResult msgs = (msgs \<noteq> [] \<and> isResult (last msgs))"

text \<open>The four counters of a usage, and the counters expected from upstream usage data
  after the renaming of its fields.\<close>

definition usageCounters :: "Usage \<Rightarrow> int \<times> int \<times> int \<times> int" where
  "usageCounters u = (input u, output u, cacheRead u, cacheWrite u)"

fun remappedCounters :: "ResultUsage option \<Rightarrow> int \<times> int \<times> int \<times> int" where
  "remappedCounters None = (0, 0, 0, 0)"
| "remappedCounters (Some ru) =
     (case input_tokens ru of None \<Rightarrow> 0 | Some n \<Rightarrow> n,
      case output_tokens ru of None \<Rightarrow> 0 | Some n \<Rightarrow> n,
      case cache_read_input_tokens ru of None \<Rightarrow> 0 | Some n \<Rightarrow> n,
      case cache_creation_input_tokens ru of None \<Rightarrow> 0 | Some n \<Rightarrow> n)"

text \<open>The stop reason the specification gives for an upstream stop reason, under the
  tool-forwarding policy (\<open>True\<close>) or the suppressing one (\<open>False\<close>).\<close>

definition specStopReason :: "bool \<Rightarrow> string option \<Rightarrow> StopReason" where
  "specStopReason forwarding raw =
     (if raw = Some ''max_tokens'' then Length
      else if forwarding \<and> raw = Some ''tool_use'' then ToolUse
      else Stop)"

text \<open>Cost all zero, and total tokens the sum of input and output.\<close>

definition usageOk :: "Usage \<Rightarrow> bool" where
  "usageOk u =
     (cost_input (cost u) = 0 \<and> cost_output (cost u) = 0 \<and> cost_cacheRead (cost u) = 0
      \<and> cost_cacheWrite (cost u) = 0 \<and> cost_total (cost u) = 0
      \<and> totalTokens u = input u + output u)"

text \<open>An upstream run is free of tool use when no assistant message has a tool\_use
  block and no result message has the stop reason \<^verbatim>\<open>tool_use\<close>.\<close>

fun toolFreeMsg :: "CodeBuddyMessage \<Rightarrow> bool" where
  "toolFreeMsg (AssistantMsg (Some blocks)) = (filter isToolUseBlock blocks = [])"
| "toolFreeMsg (ResultMsg r u) = (r \<noteq> Some ''tool_use'')"
| "toolFreeMsg m = True"

fun toolFree :: "upstream \<Rightarrow> bool" where
  "toolFree (CallThrows err) = True"
| "toolFree (Yields msgs fin) = (filter (\<lambda>m. \<not> toolFreeMsg m) msgs = [])"













section \<open>Basic facts\<close>

lemma push_fields [simp]:
  "pushed (push e es) = pushed es @ [e]"
  "ended (push e es) = ended es"
  by (simp_all add: push_def)

lemma end_stream_fields [simp]:
  "pushed (end_stream es) = pushed es"
  "ended (end_stream es) = Suc (ended es)"
  by (simp_all add: end_stream_def)

lemma emit_fields [simp]:
  "eventStream (emit e s) = push e (eventStream s)"
  "accumulatedContent (emit e s) = accumulatedContent s"
  "contentIndex (emit e s) = contentIndex s"
  "currentUsage (emit e s) = currentUsage s"
  by (simp_all add: emit_def)

lemma initialState_fields [simp]:
  "pushed (eventStream initialState) = []"
  "ended (eventStream initialState) = 0"
  "accumulatedContent initialState = []"
  "contentIndex initialState = 0"
  "currentUsage initialState = createDefaultUsage"
  by (simp_all add: initialState_def createAssistantMessageEventStream_def createDefaultUsage_def)

lemma createPartialMessage_fields [simp]:
  "content (createPartialMessage c u mo) = c"
  "usage (createPartialMessage c u mo) = nullish u createDefaultUsage"
  "stopReason (createPartialMessage c u mo) = Stop"
  by (simp_all add: createPartialMessage_def)

lemma translateBlock_text:
  "pushed (eventStream (translateBlock mid s (TextBlock t))) =
     pushed (eventStream s) @
       [TextStart (contentIndex s)
          (createPartialMessage (accumulatedContent s) (Some (currentUsage s)) (Some mid)),
        TextDelta (contentIndex s) t
          (createPartialMessage (accumulatedContent s) (Some (currentUsage s)) (Some mid)),
        TextEnd (contentIndex s) t
          (createPartialMessage (accumulatedContent s @ [TextContent t]) (Some (currentUsage s)) (Some mid))]"
  "ended (eventStream (translateBlock mid s (TextBlock t))) = ended (eventStream s)"
  "accumulatedContent (translateBlock mid s (TextBlock t)) = accumulatedContent s @ [TextContent t]"
  "contentIndex (translateBlock mid s (TextBlock t)) = Suc (contentIndex s)"
  "currentUsage (translateBlock mid s (TextBlock t)) = currentUsage s"
  by (simp_all add: Let_def)

lemma translateMessage_result:
  "pushed (eventStream (translateMessage mid s (ResultMsg r u))) =
     pushed (eventStream s) @
       [Done (if r = Some ''max_tokens'' then Length else Stop)
          \<lparr>role = ''assistant'', content = accumulatedContent s, provider = ''codebuddy'',
           model = mid, api = ''anthropic-messages'',
           stopReason = (if r = Some ''max_tokens'' then Length else Stop),
           usage = (case u of None \<Rightarrow> currentUsage s | Some ru \<Rightarrow> usageFromResult ru)\<rparr>]"
  "ended (eventStream (translateMessage mid s (ResultMsg r u))) = ended (eventStream s)"
  "accumulatedContent (translateMessage mid s (ResultMsg r u)) = accumulatedContent s"
  "contentIndex (translateMessage mid s (ResultMsg r u)) = contentIndex s"
  "currentUsage (translateMessage mid s (ResultMsg r u)) =
     (case u of None \<Rightarrow> currentUsage s | Some ru \<Rightarrow> usageFromResult ru)"
  by (simp_all add: Let_def split: option.split)


declare translateBlock_text [simp]
declare translateBlock.simps(1) [simp del]
declare translateMessage_result [simp]
declare translateMessage.simps(3) [simp del]

section \<open>The block loop\<close>

lemma blocks_frame [simp]:
  "currentUsage (foldl (translateBlock mid) s bs) = currentUsage s"
  "ended (eventStream (foldl (translateBlock mid) s bs)) = ended (eventStream s)"
proof (induction bs arbitrary: s)
  case Nil
  { case 1 show ?case by simp next case 2 show ?case by simp }
next
  case (Cons b bs)
  { case 1 show ?case using Cons.IH(1) by (cases b) simp_all
  next case 2 show ?case using Cons.IH(2) by (cases b) simp_all }
qed

lemma blocks_obs:
  assumes "\<And>k msg. f (TextStart k msg) = []"
    and "\<And>k d msg. f (TextDelta k d msg) = []"
    and "\<And>k c msg. f (TextEnd k c msg) = []"
  shows "concat (map f (pushed (eventStream (foldl (translateBlock mid) s bs)))) =
         concat (map f (pushed (eventStream s)))"
proof (induction bs arbitrary: s)
  case Nil
  show ?case by simp
next
  case (Cons b bs)
  show ?case using Cons.IH assms by (cases b) simp_all
qed

lemma blocks_index:
  "concat (map blockEventIndex (pushed (eventStream (foldl (translateBlock mid) s bs)))) =
     concat (map blockEventIndex (pushed (eventStream s))) @
     concat (map (\<lambda>(k, b). blockGroup k b) (enumerate (contentIndex s) (filter isTextBlock bs)))
   \<and> contentIndex (foldl (translateBlock mid) s bs) =
       contentIndex s + length (filter isTextBlock bs)"
proof (induction bs arbitrary: s)
  case Nil
  show ?case by simp
next
  case (Cons b bs)
  show ?case using Cons.IH [of "translateBlock mid s b"] by (cases b) simp_all
qed

lemma blocks_usageOk:
  "usageOk (currentUsage s) \<Longrightarrow>
   list_all (\<lambda>e. usageOk (usage (eventMessage e))) (pushed (eventStream s)) \<Longrightarrow>
   list_all (\<lambda>e. usageOk (usage (eventMessage e)))
     (pushed (eventStream (foldl (translateBlock mid) s bs)))"
proof (induction bs arbitrary: s)
  case Nil
  then show ?case by simp
next
  case (Cons b bs)
  then show ?case by (cases b) simp_all
qed

lemma blocks_prefix:
  "prefix (pushed (eventStream s)) (pushed (eventStream (foldl (translateBlock mid) s bs)))"
proof (induction bs arbitrary: s)
  case Nil
  show ?case by simp
next
  case (Cons b bs)
  have "prefix (pushed (eventStream s)) (pushed (eventStream (translateBlock mid s b)))"
    by (cases b) simp_all
  then show ?case using Cons.IH [of "translateBlock mid s b"]
    by (auto intro: prefix_order.trans)
qed

lemma blocks_text_shape:
  "map textEventShape (pushed (eventStream (foldl (translateBlock mid) s (map TextBlock ts)))) =
     map textEventShape (pushed (eventStream s)) @
     concat (map (\<lambda>t. [ShStart, ShDelta t, ShEnd t]) ts)"
  by (induction ts arbitrary: s) simp_all

lemma blocks_text_delta:
  "concat (map textDeltas (pushed (eventStream (foldl (translateBlock mid) s (map TextBlock ts))))) =
     concat (map textDeltas (pushed (eventStream s))) @ ts"
  by (induction ts arbitrary: s) simp_all

section \<open>The message loop\<close>

lemma lastResultUsage_snoc:
  "lastResultUsage (ms @ [m]) =
     (case resultUsage m of [] \<Rightarrow> lastResultUsage ms | ru # rest \<Rightarrow> Some ru)"
  by (cases m rule: resultUsage.cases) (simp_all add: lastResultUsage_def)

lemma msgs_ended [simp]:
  "ended (eventStream (foldl (translateMessage mid) s ms)) = ended (eventStream s)"
proof (induction ms arbitrary: s)
  case Nil
  show ?case by simp
next
  case (Cons m ms)
  show ?case using Cons.IH by (cases m rule: messageBlocks.cases) simp_all
qed

lemma msgs_prefix:
  "prefix (pushed (eventStream s)) (pushed (eventStream (foldl (translateMessage mid) s ms)))"
proof (induction ms arbitrary: s)
  case Nil
  show ?case by simp
next
  case (Cons m ms)
  have "prefix (pushed (eventStream s)) (pushed (eventStream (translateMessage mid s m)))"
    by (cases m rule: messageBlocks.cases) (simp_all add: blocks_prefix)
  then show ?case using Cons.IH [of "translateMessage mid s m"]
    by (auto intro: prefix_order.trans)
qed


lemma msgs_reason:
  "concat (map doneReason (pushed (eventStream (foldl (translateMessage mid) s ms)))) =
     concat (map doneReason (pushed (eventStream s))) @
     map (\<lambda>r. (specStopReason False r, specStopReason False r)) (concat (map resultStopReason ms))"
proof (induction ms arbitrary: s)
  case Nil
  show ?case by simp
next
  case (Cons m ms)
  show ?case using Cons.IH
    by (cases m rule: messageBlocks.cases) (simp_all add: blocks_obs specStopReason_def)
qed

lemma msgs_usage_state:
  "currentUsage (foldl (translateMessage mid) s ms) =
     (case lastResultUsage ms of None \<Rightarrow> currentUsage s | Some ru \<Rightarrow> usageFromResult ru)"
proof (induction ms rule: rev_induct)
  case Nil
  show ?case by (simp add: lastResultUsage_def)
next
  case (snoc m ms)
  then show ?case
    by (cases m rule: messageBlocks.cases)
       (simp_all add: lastResultUsage_snoc split: option.split)
qed

lemma msgs_usage:
  "concat (map doneUsage (pushed (eventStream (foldl (translateMessage mid) s ms)))) =
     concat (map doneUsage (pushed (eventStream s))) @
     map (\<lambda>p. case lastResultUsage p of None \<Rightarrow> currentUsage s | Some ru \<Rightarrow> usageFromResult ru)
       (filter endsWithResult (prefixes ms))"
proof (induction ms rule: rev_induct)
  case Nil
  show ?case by (simp add: endsWithResult_def)
next
  case (snoc m ms)
  then show ?case
    by (cases m rule: messageBlocks.cases)
       (simp_all add: blocks_obs msgs_usage_state lastResultUsage_snoc endsWithResult_def
          split: option.split)
qed

lemma msgs_index:
  "concat (map blockEventIndex (pushed (eventStream (foldl (translateMessage mid) s ms)))) =
     concat (map blockEventIndex (pushed (eventStream s))) @
     concat (map (\<lambda>(k, b). blockGroup k b)
       (enumerate (contentIndex s) (filter isTextBlock (upstreamBlocks ms))))
   \<and> contentIndex (foldl (translateMessage mid) s ms) =
       contentIndex s + length (filter isTextBlock (upstreamBlocks ms))"
proof (induction ms arbitrary: s)
  case Nil
  show ?case by (simp add: upstreamBlocks_def)
next
  case (Cons m ms)
  show ?case using Cons.IH [of "translateMessage mid s m"]
    by (cases m rule: messageBlocks.cases)
       (simp_all add: upstreamBlocks_def blocks_index enumerate_append_eq)
qed

lemma usageOk_usageFromResult [simp]: "usageOk (usageFromResult ru)"
  by (simp add: usageOk_def usageFromResult_def zeroCost_def)

lemma usageOk_createDefaultUsage [simp]: "usageOk createDefaultUsage"
  by (simp add: usageOk_def createDefaultUsage_def zeroCost_def)

lemma msgs_usageOk:
  "usageOk (currentUsage s) \<Longrightarrow>
   list_all (\<lambda>e. usageOk (usage (eventMessage e))) (pushed (eventStream s)) \<Longrightarrow>
   usageOk (currentUsage (foldl (translateMessage mid) s ms)) \<and>
   list_all (\<lambda>e. usageOk (usage (eventMessage e)))
     (pushed (eventStream (foldl (translateMessage mid) s ms)))"
proof (induction ms arbitrary: s)
  case Nil
  then show ?case by simp
next
  case (Cons m ms)
  have "usageOk (currentUsage (translateMessage mid s m)) \<and>
        list_all (\<lambda>e. usageOk (usage (eventMessage e))) (pushed (eventStream (translateMessage mid s m)))"
    using Cons.prems
    by (cases m rule: messageBlocks.cases)
       (simp_all add: blocks_usageOk split: option.split)
  then show ?case using Cons.IH [of "translateMessage mid s m"] by simp
qed

section \<open>The same for the forwarding version\<close>

lemma translateBlock_text_fwd:
  "pushed (eventStream (translateBlock_fwd mid s (TextBlock t))) =
     pushed (eventStream s) @
       [TextStart (contentIndex s)
          (createPartialMessage (accumulatedContent s) (Some (currentUsage s)) (Some mid)),
        TextDelta (contentIndex s) t
          (createPartialMessage (accumulatedContent s) (Some (currentUsage s)) (Some mid)),
        TextEnd (contentIndex s) t
          (createPartialMessage (accumulatedContent s @ [TextContent t]) (Some (currentUsage s)) (Some mid))]"
  "ended (eventStream (translateBlock_fwd mid s (TextBlock t))) = ended (eventStream s)"
  "accumulatedContent (translateBlock_fwd mid s (TextBlock t)) = accumulatedContent s @ [TextContent t]"
  "contentIndex (translateBlock_fwd mid s (TextBlock t)) = Suc (contentIndex s)"
  "currentUsage (translateBlock_fwd mid s (TextBlock t)) = currentUsage s"
  by (simp_all add: Let_def)

lemma translateBlock_tool_fwd:
  "pushed (eventStream (translateBlock_fwd mid s (ToolUseBlock i n a))) =
     pushed (eventStream s) @
       [ToolcallStart (contentIndex s)
          (createPartialMessage (accumulatedContent s) (Some (currentUsage s)) (Some mid)),
        ToolcallEnd (contentIndex s) (ToolCall i n a)
          (createPartialMessage (accumulatedContent s @ [ToolCall i n a]) (Some (currentUsage s)) (Some mid))]"
  "ended (eventStream (translateBlock_fwd mid s (ToolUseBlock i n a))) = ended (eventStream s)"
  "accumulatedContent (translateBlock_fwd mid s (ToolUseBlock i n a)) = accumulatedContent s @ [ToolCall i n a]"
  "contentIndex (translateBlock_fwd mid s (ToolUseBlock i n a)) = Suc (contentIndex s)"
  "currentUsage (translateBlock_fwd mid s (ToolUseBlock i n a)) = currentUsage s"
  by (simp_all add: Let_def)

lemma translateMessage_result_fwd:
  "pushed (eventStream (translateMessage_fwd mid s (ResultMsg r u))) =
     pushed (eventStream s) @
       [Done (if r = Some ''tool_use'' then ToolUse
              else if r = Some ''max_tokens'' then Length else Stop)
          \<lparr>role = ''assistant'', content = accumulatedContent s, provider = ''codebuddy'',
           model = mid, api = ''anthropic-messages'',
           stopReason = (if r = Some ''tool_use'' then ToolUse
                         else if r = Some ''max_tokens'' then Length else Stop),
           usage = (case u of None \<Rightarrow> currentUsage s | Some ru \<Rightarrow> usageFromResult ru)\<rparr>]"
  "ended (eventStream (translateMessage_fwd mid s (ResultMsg r u))) = ended (eventStream s)"
  "accumulatedContent (translateMessage_fwd mid s (ResultMsg r u)) = accumulatedContent s"
  "contentIndex (translateMessage_fwd mid s (ResultMsg r u)) = contentIndex s"
  "currentUsage (translateMessage_fwd mid s (ResultMsg r u)) =
     (case u of None \<Rightarrow> currentUsage s | Some ru \<Rightarrow> usageFromResult ru)"
  by (simp_all add: Let_def split: option.split)


declare translateBlock_text_fwd [simp] translateBlock_tool_fwd [simp]
declare translateBlock_fwd.simps(1) [simp del] translateBlock_fwd.simps(2) [simp del]
declare translateMessage_result_fwd [simp]
declare translateMessage_fwd.simps(3) [simp del]



lemma blocks_frame_fwd [simp]:
  "currentUsage (foldl (translateBlock_fwd mid) s bs) = currentUsage s"
  "ended (eventStream (foldl (translateBlock_fwd mid) s bs)) = ended (eventStream s)"
proof (induction bs arbitrary: s)
  case Nil
  { case 1 show ?case by simp next case 2 show ?case by simp }
next
  case (Cons b bs)
  { case 1 show ?case using Cons.IH(1) by (cases b) simp_all
  next case 2 show ?case using Cons.IH(2) by (cases b) simp_all }
qed

lemma blocks_obs_fwd:
  assumes "\<And>k msg. f (TextStart k msg) = []"
    and "\<And>k d msg. f (TextDelta k d msg) = []"
    and "\<And>k c msg. f (TextEnd k c msg) = []"
    and "\<And>k msg. f (ToolcallStart k msg) = []"
    and "\<And>k tc msg. f (ToolcallEnd k tc msg) = []"
  shows "concat (map f (pushed (eventStream (foldl (translateBlock_fwd mid) s bs)))) =
         concat (map f (pushed (eventStream s)))"
proof (induction bs arbitrary: s)
  case Nil
  show ?case by simp
next
  case (Cons b bs)
  show ?case using Cons.IH assms by (cases b) simp_all
qed

lemma blocks_index_fwd:
  "concat (map blockEventIndex (pushed (eventStream (foldl (translateBlock_fwd mid) s bs)))) =
     concat (map blockEventIndex (pushed (eventStream s))) @
     concat (map (\<lambda>(k, b). blockGroup k b) (enumerate (contentIndex s) (filter (\<lambda>b. isTextBlock b \<or> isToolUseBlock b) bs)))
   \<and> contentIndex (foldl (translateBlock_fwd mid) s bs) =
       contentIndex s + length (filter (\<lambda>b. isTextBlock b \<or> isToolUseBlock b) bs)"
proof (induction bs arbitrary: s)
  case Nil
  show ?case by simp
next
  case (Cons b bs)
  show ?case using Cons.IH [of "translateBlock_fwd mid s b"] by (cases b) simp_all
qed

lemma blocks_usageOk_fwd:
  "usageOk (currentUsage s) \<Longrightarrow>
   list_all (\<lambda>e. usageOk (usage (eventMessage e))) (pushed (eventStream s)) \<Longrightarrow>
   list_all (\<lambda>e. usageOk (usage (eventMessage e)))
     (pushed (eventStream (foldl (translateBlock_fwd mid) s bs)))"
proof (induction bs arbitrary: s)
  case Nil
  then show ?case by simp
next
  case (Cons b bs)
  then show ?case by (cases b) simp_all
qed

lemma blocks_prefix_fwd:
  "prefix (pushed (eventStream s)) (pushed (eventStream (foldl (translateBlock_fwd mid) s bs)))"
proof (induction bs arbitrary: s)
  case Nil
  show ?case by simp
next
  case (Cons b bs)
  have "prefix (pushed (eventStream s)) (pushed (eventStream (translateBlock_fwd mid s b)))"
    by (cases b) simp_all
  then show ?case using Cons.IH [of "translateBlock_fwd mid s b"]
    by (auto intro: prefix_order.trans)
qed

lemma blocks_text_shape_fwd:
  "map textEventShape (pushed (eventStream (foldl (translateBlock_fwd mid) s (map TextBlock ts)))) =
     map textEventShape (pushed (eventStream s)) @
     concat (map (\<lambda>t. [ShStart, ShDelta t, ShEnd t]) ts)"
  by (induction ts arbitrary: s) simp_all

lemma blocks_text_delta_fwd:
  "concat (map textDeltas (pushed (eventStream (foldl (translateBlock_fwd mid) s (map TextBlock ts))))) =
     concat (map textDeltas (pushed (eventStream s))) @ ts"
  by (induction ts arbitrary: s) simp_all

lemma msgs_ended_fwd [simp]:
  "ended (eventStream (foldl (translateMessage_fwd mid) s ms)) = ended (eventStream s)"
proof (induction ms arbitrary: s)
  case Nil
  show ?case by simp
next
  case (Cons m ms)
  show ?case using Cons.IH by (cases m rule: messageBlocks.cases) simp_all
qed

lemma msgs_prefix_fwd:
  "prefix (pushed (eventStream s)) (pushed (eventStream (foldl (translateMessage_fwd mid) s ms)))"
proof (induction ms arbitrary: s)
  case Nil
  show ?case by simp
next
  case (Cons m ms)
  have "prefix (pushed (eventStream s)) (pushed (eventStream (translateMessage_fwd mid s m)))"
    by (cases m rule: messageBlocks.cases) (simp_all add: blocks_prefix_fwd)
  then show ?case using Cons.IH [of "translateMessage_fwd mid s m"]
    by (auto intro: prefix_order.trans)
qed


lemma msgs_reason_fwd:
  "concat (map doneReason (pushed (eventStream (foldl (translateMessage_fwd mid) s ms)))) =
     concat (map doneReason (pushed (eventStream s))) @
     map (\<lambda>r. (specStopReason True r, specStopReason True r)) (concat (map resultStopReason ms))"
proof (induction ms arbitrary: s)
  case Nil
  show ?case by simp
next
  case (Cons m ms)
  show ?case using Cons.IH
    by (cases m rule: messageBlocks.cases) (simp_all add: blocks_obs_fwd specStopReason_def)
qed

lemma msgs_usage_state_fwd:
  "currentUsage (foldl (translateMessage_fwd mid) s ms) =
     (case lastResultUsage ms of None \<Rightarrow> currentUsage s | Some ru \<Rightarrow> usageFromResult ru)"
proof (induction ms rule: rev_induct)
  case Nil
  show ?case by (simp add: lastResultUsage_def)
next
  case (snoc m ms)
  then show ?case
    by (cases m rule: messageBlocks.cases)
       (simp_all add: lastResultUsage_snoc split: option.split)
qed

lemma msgs_usage_fwd:
  "concat (map doneUsage (pushed (eventStream (foldl (translateMessage_fwd mid) s ms)))) =
     concat (map doneUsage (pushed (eventStream s))) @
     map (\<lambda>p. case lastResultUsage p of None \<Rightarrow> currentUsage s | Some ru \<Rightarrow> usageFromResult ru)
       (filter endsWithResult (prefixes ms))"
proof (induction ms rule: rev_induct)
  case Nil
  show ?case by (simp add: endsWithResult_def)
next
  case (snoc m ms)
  then show ?case
    by (cases m rule: messageBlocks.cases)
       (simp_all add: blocks_obs_fwd msgs_usage_state_fwd lastResultUsage_snoc endsWithResult_def
          split: option.split)
qed

lemma msgs_index_fwd:
  "concat (map blockEventIndex (pushed (eventStream (foldl (translateMessage_fwd mid) s ms)))) =
     concat (map blockEventIndex (pushed (eventStream s))) @
     concat (map (\<lambda>(k, b). blockGroup k b)
       (enumerate (contentIndex s) (filter (\<lambda>b. isTextBlock b \<or> isToolUseBlock b) (upstreamBlocks ms))))
   \<and> contentIndex (foldl (translateMessage_fwd mid) s ms) =
       contentIndex s + length (filter (\<lambda>b. isTextBlock b \<or> isToolUseBlock b) (upstreamBlocks ms))"
proof (induction ms arbitrary: s)
  case Nil
  show ?case by (simp add: upstreamBlocks_def)
next
  case (Cons m ms)
  show ?case using Cons.IH [of "translateMessage_fwd mid s m"]
    by (cases m rule: messageBlocks.cases)
       (simp_all add: upstreamBlocks_def blocks_index_fwd enumerate_append_eq)
qed

lemma msgs_usageOk_fwd:
  "usageOk (currentUsage s) \<Longrightarrow>
   list_all (\<lambda>e. usageOk (usage (eventMessage e))) (pushed (eventStream s)) \<Longrightarrow>
   usageOk (currentUsage (foldl (translateMessage_fwd mid) s ms)) \<and>
   list_all (\<lambda>e. usageOk (usage (eventMessage e)))
     (pushed (eventStream (foldl (translateMessage_fwd mid) s ms)))"
proof (induction ms arbitrary: s)
  case Nil
  then show ?case by simp
next
  case (Cons m ms)
  have "usageOk (currentUsage (translateMessage_fwd mid s m)) \<and>
        list_all (\<lambda>e. usageOk (usage (eventMessage e))) (pushed (eventStream (translateMessage_fwd mid s m)))"
    using Cons.prems
    by (cases m rule: messageBlocks.cases)
       (simp_all add: blocks_usageOk_fwd split: option.split)
  then show ?case using Cons.IH [of "translateMessage_fwd mid s m"] by simp
qed

section \<open>Whole runs\<close>


lemma doneReason_errorEvent [simp]: "doneReason (errorEvent mid err) = []"
  by (simp add: errorEvent_def)

lemma doneUsage_errorEvent [simp]: "doneUsage (errorEvent mid err) = []"
  by (simp add: errorEvent_def)

lemma blockEventIndex_errorEvent [simp]: "blockEventIndex (errorEvent mid err) = []"
  by (simp add: errorEvent_def)

lemma isTerminal_errorEvent [simp]: "isTerminal (errorEvent mid err)"
  by (simp add: errorEvent_def)

lemma usage_errorEvent [simp]: "usage (eventMessage (errorEvent mid err)) = createDefaultUsage"
  by (simp add: errorEvent_def)

lemma stream_usageOk:
  "list_all (\<lambda>e. usageOk (usage (eventMessage e))) (pushed (translateStream mid up))"
proof (cases up)
  case (CallThrows err)
  then show ?thesis by simp
next
  case (Yields msgs fin)
  have "list_all (\<lambda>e. usageOk (usage (eventMessage e)))
          (pushed (eventStream (foldl (translateMessage mid)
             (emit (Start (createPartialMessage [] (Some (currentUsage initialState)) (Some mid)))
                initialState) msgs)))"
    by (rule msgs_usageOk [THEN conjunct2]) simp_all
  then show ?thesis using Yields by (cases fin) (simp_all add: Let_def)
qed

lemma stream_usageOk_fwd:
  "list_all (\<lambda>e. usageOk (usage (eventMessage e))) (pushed (translateStream_fwd mid up))"
proof (cases up)
  case (CallThrows err)
  then show ?thesis by simp
next
  case (Yields msgs fin)
  have "list_all (\<lambda>e. usageOk (usage (eventMessage e)))
          (pushed (eventStream (foldl (translateMessage_fwd mid)
             (emit (Start (createPartialMessage [] (Some (currentUsage initialState)) (Some mid)))
                initialState) msgs)))"
    by (rule msgs_usageOk_fwd [THEN conjunct2]) simp_all
  then show ?thesis using Yields by (cases fin) (simp_all add: Let_def)
qed

lemma sdkNotFound_fields [simp]:
  "pushed sdkNotFound =
     [Error (createPartialMessage
        [TextContent ''CodeBuddy SDK not found. Install it with: pnpm add @tencent-ai/agent-sdk'']
        None None)]"
  "ended sdkNotFound = 1"
  by (simp_all add: sdkNotFound_def createAssistantMessageEventStream_def)

text \<open>
  Claim C3. For every result message of an upstream run, the done event it gives carries
  the stop reason \<open>Length\<close> when the upstream stop reason is \<^verbatim>\<open>max_tokens\<close>, and
  \<open>Stop\<close> for every other or absent value; except that the tool-forwarding version
  gives \<open>ToolUse\<close> for \<^verbatim>\<open>tool_use\<close>, which the suppressing version maps to
  \<open>Stop\<close>. The reason of the event and the stop reason of its final message agree,
  and the done events come in the order of the result messages.
\<close>

theorem stop_reason_mapping:
  "concat (map doneReason (pushed (translateStream mid (Yields msgs fin)))) =
     map (\<lambda>r. (specStopReason False r, specStopReason False r))
       (concat (map resultStopReason msgs))
   \<and> concat (map doneReason (pushed (translateStream_fwd mid (Yields msgs fin)))) =
     map (\<lambda>r. (specStopReason True r, specStopReason True r))
       (concat (map resultStopReason msgs))"
  by (cases fin) (simp_all add: Let_def msgs_reason msgs_reason_fwd)

theorem stop_reason_mapping_witness:
  "concat (map doneReason (pushed (translateStream ''m''
     (Yields [ResultMsg (Some ''max_tokens'') None, ResultMsg (Some ''tool_use'') None,
              ResultMsg (Some ''end_turn'') None, ResultMsg None None] Completes)))) =
     [(Length, Length), (Stop, Stop), (Stop, Stop), (Stop, Stop)]
   \<and> concat (map doneReason (pushed (translateStream_fwd ''m''
     (Yields [ResultMsg (Some ''max_tokens'') None, ResultMsg (Some ''tool_use'') None,
              ResultMsg (Some ''end_turn'') None, ResultMsg None None] Completes)))) =
     [(Length, Length), (ToolUse, ToolUse), (Stop, Stop), (Stop, Stop)]"
  using stop_reason_mapping [of "''m''"
    "[ResultMsg (Some ''max_tokens'') None, ResultMsg (Some ''tool_use'') None,
      ResultMsg (Some ''end_turn'') None, ResultMsg None None]" Completes]
  by (simp add: specStopReason_def)

text \<open>
  Claim C10. In the assistant message of every event pushed by an invocation (the partial
  messages, the final message of a done event, the message of an error event, in either
  version), the five cost fields of the usage are zero and \<open>totalTokens\<close> is
  \<open>input + output\<close>, so that the cache counters never contribute to it.
\<close>

theorem usage_cost_zero_total_sum:
  "list_all (\<lambda>e. usageOk (usage (eventMessage e)))
     (pushed (createCodeBuddyStreamFn queryFn sdk m context streamOptions))
   \<and> list_all (\<lambda>e. usageOk (usage (eventMessage e)))
     (pushed (createCodeBuddyStreamFn_fwd queryFn' sdk' m context streamOptions))"
  by (simp add: createCodeBuddyStreamFn_def createCodeBuddyStreamFn_fwd_def
        stream_usageOk stream_usageOk_fwd split: option.split)

theorem usage_cost_zero_total_sum_witness:
  "list_all (\<lambda>e. usageOk (usage (eventMessage e)))
     (pushed (createCodeBuddyStreamFn
        (Some (\<lambda>p. Yields [AssistantMsg (Some [TextBlock ''Hello'']),
           ResultMsg None (Some \<lparr>input_tokens = Some 100, output_tokens = Some 50,
             cache_read_input_tokens = Some 80, cache_creation_input_tokens = Some 20\<rparr>)] Completes))
        None \<lparr>model_id = ''m'', model_maxTokens = 8192\<rparr> \<lparr>messages = [], systemPrompt = None\<rparr> None))
   \<and> map (\<lambda>e. totalTokens (usage (eventMessage e)))
     (pushed (createCodeBuddyStreamFn
        (Some (\<lambda>p. Yields [AssistantMsg (Some [TextBlock ''Hello'']),
           ResultMsg None (Some \<lparr>input_tokens = Some 100, output_tokens = Some 50,
             cache_read_input_tokens = Some 80, cache_creation_input_tokens = Some 20\<rparr>)] Completes))
        None \<lparr>model_id = ''m'', model_maxTokens = 8192\<rparr> \<lparr>messages = [], systemPrompt = None\<rparr> None))
     = [0, 0, 0, 0, 150]"
  using usage_cost_zero_total_sum [of
    "Some (\<lambda>p. Yields [AssistantMsg (Some [TextBlock ''Hello'']),
           ResultMsg None (Some \<lparr>input_tokens = Some 100, output_tokens = Some 50,
             cache_read_input_tokens = Some 80, cache_creation_input_tokens = Some 20\<rparr>)] Completes)"
    None "\<lparr>model_id = ''m'', model_maxTokens = 8192\<rparr>" "\<lparr>messages = [], systemPrompt = None\<rparr>" None
    None None]
  by (simp add: createCodeBuddyStreamFn_def resolveQueryFn_def Let_def
        usageFromResult_def createDefaultUsage_def)




text \<open>
  Claim C2. The done events of a run correspond, in order, to the prefixes of the upstream
  sequence that end with a result message, and the counters of each done event are those
  of the last result message of that prefix that carries usage data, after the renaming
  \<^verbatim>\<open>input_tokens\<close> to \<open>input\<close>, \<^verbatim>\<open>output_tokens\<close> to \<open>output\<close>,
  \<^verbatim>\<open>cache_read_input_tokens\<close> to \<open>cacheRead\<close>, \<^verbatim>\<open>cache_creation_input_tokens\<close>
  to \<open>cacheWrite\<close>, a missing field counting as 0; they are all zero when no result
  message of the prefix carries usage data. The counters depend on that one result
  message only: nothing of an earlier usage is merged in.
\<close>

theorem done_usage_last_result:
  "map usageCounters (concat (map doneUsage (pushed (translateStream mid (Yields msgs fin))))) =
     map (\<lambda>p. remappedCounters (lastResultUsage p)) (filter endsWithResult (prefixes msgs))
   \<and> map usageCounters (concat (map doneUsage (pushed (translateStream_fwd mid (Yields msgs fin))))) =
     map (\<lambda>p. remappedCounters (lastResultUsage p)) (filter endsWithResult (prefixes msgs))"
proof -
  have eq: "(\<lambda>p. usageCounters (case lastResultUsage p of None \<Rightarrow> createDefaultUsage
                                   | Some ru \<Rightarrow> usageFromResult ru)) =
            (\<lambda>p. remappedCounters (lastResultUsage p))"
  proof (rule ext)
    fix p
    have "usageCounters (usageFromResult ru) = remappedCounters (Some ru)" for ru
      by (cases "input_tokens ru"; cases "output_tokens ru"; cases "cache_read_input_tokens ru";
          cases "cache_creation_input_tokens ru")
         (simp_all add: usageCounters_def usageFromResult_def)
    then show "usageCounters (case lastResultUsage p of None \<Rightarrow> createDefaultUsage
                 | Some ru \<Rightarrow> usageFromResult ru) = remappedCounters (lastResultUsage p)"
      by (cases "lastResultUsage p") (simp_all add: usageCounters_def createDefaultUsage_def)
  qed
  show ?thesis
    by (cases fin) (simp_all add: Let_def msgs_usage msgs_usage_fwd comp_def eq cong: option.case_cong)
qed

theorem done_usage_last_result_witness:
  "map usageCounters (concat (map doneUsage (pushed (translateStream ''m''
     (Yields [ResultMsg None None,
              ResultMsg None (Some \<lparr>input_tokens = Some 10, output_tokens = Some 5,
                cache_read_input_tokens = None, cache_creation_input_tokens = None\<rparr>),
              ResultMsg None (Some \<lparr>input_tokens = None, output_tokens = None,
                cache_read_input_tokens = Some 7, cache_creation_input_tokens = None\<rparr>),
              ResultMsg None None] Completes))))) =
     [(0, 0, 0, 0), (10, 5, 0, 0), (0, 0, 7, 0), (0, 0, 7, 0)]"
  using done_usage_last_result [of "''m''"
     "[ResultMsg None None,
       ResultMsg None (Some \<lparr>input_tokens = Some 10, output_tokens = Some 5,
         cache_read_input_tokens = None, cache_creation_input_tokens = None\<rparr>),
       ResultMsg None (Some \<lparr>input_tokens = None, output_tokens = None,
         cache_read_input_tokens = Some 7, cache_creation_input_tokens = None\<rparr>),
       ResultMsg None None]" Completes]
  by (simp add: Let_def usageCounters_def usageFromResult_def createDefaultUsage_def)

text \<open>
  Claim C4. Within one translation, the content indices of the block events, read in the
  order the events are pushed, are those of the emitted blocks numbered 0, 1, 2, ... in
  the order the blocks are met: a text block with number \<open>k\<close> gives text\_start,
  text\_delta and text\_end with index \<open>k\<close>, and in the forwarding version a tool\_use
  block with number \<open>k\<close> gives toolcall\_start and toolcall\_end with index \<open>k\<close>, the
  numbering being shared by both families. The emitted blocks are the text blocks in
  the suppressing version and the text and tool\_use blocks in the forwarding version.
\<close>

theorem content_indices_sequential:
  "concat (map blockEventIndex (pushed (translateStream mid (Yields msgs fin)))) =
     concat (map (\<lambda>(k, b). blockGroup k b)
       (enumerate 0 (filter isTextBlock (upstreamBlocks msgs))))
   \<and> concat (map blockEventIndex (pushed (translateStream_fwd mid (Yields msgs fin)))) =
     concat (map (\<lambda>(k, b). blockGroup k b)
       (enumerate 0 (filter (\<lambda>b. isTextBlock b \<or> isToolUseBlock b) (upstreamBlocks msgs))))"
  by (cases fin) (simp_all add: Let_def msgs_index msgs_index_fwd)

theorem content_indices_sequential_witness:
  "concat (map blockEventIndex (pushed (translateStream ''m''
     (Yields [AssistantMsg (Some [TextBlock ''a'', ToolUseBlock ''t1'' ''Read'' JNull]),
              ResultMsg None None,
              AssistantMsg (Some [TextBlock ''b''])] Completes)))) =
     [(KTextStart, 0), (KTextDelta, 0), (KTextEnd, 0),
      (KTextStart, 1), (KTextDelta, 1), (KTextEnd, 1)]
   \<and> concat (map blockEventIndex (pushed (translateStream_fwd ''m''
     (Yields [AssistantMsg (Some [TextBlock ''a'', ToolUseBlock ''t1'' ''Read'' JNull]),
              ResultMsg None None,
              AssistantMsg (Some [TextBlock ''b''])] Completes)))) =
     [(KTextStart, 0), (KTextDelta, 0), (KTextEnd, 0),
      (KToolcallStart, 1), (KToolcallEnd, 1),
      (KTextStart, 2), (KTextDelta, 2), (KTextEnd, 2)]"
  using content_indices_sequential [of "''m''"
     "[AssistantMsg (Some [TextBlock ''a'', ToolUseBlock ''t1'' ''Read'' JNull]),
       ResultMsg None None,
       AssistantMsg (Some [TextBlock ''b''])]" Completes]
  by (simp add: upstreamBlocks_def enumerate_Suc_eq)


text \<open>
  Claim C6. For an upstream assistant message all of whose blocks are text blocks, with
  the texts \<open>ts\<close>, translated in any state: the events pushed for it are, for each
  block in order, one text\_start, one text\_delta carrying the whole text of the block
  and one text\_end whose content is that text; the list of the delta payloads is
  \<open>ts\<close>, and their concatenation is the concatenation of the texts. Both versions.
\<close>

theorem text_blocks_whole_deltas:
  "(\<exists>new. pushed (eventStream (translateMessage mid s (AssistantMsg (Some (map TextBlock ts))))) =
            pushed (eventStream s) @ new
      \<and> map textEventShape new = concat (map (\<lambda>t. [ShStart, ShDelta t, ShEnd t]) ts)
      \<and> concat (map textDeltas new) = ts
      \<and> concat (concat (map textDeltas new)) = concat ts)
   \<and> (\<exists>new. pushed (eventStream (translateMessage_fwd mid s (AssistantMsg (Some (map TextBlock ts))))) =
            pushed (eventStream s) @ new
      \<and> map textEventShape new = concat (map (\<lambda>t. [ShStart, ShDelta t, ShEnd t]) ts)
      \<and> concat (map textDeltas new) = ts
      \<and> concat (concat (map textDeltas new)) = concat ts)"
proof
  obtain new where new:
    "pushed (eventStream (foldl (translateBlock mid) s (map TextBlock ts))) =
       pushed (eventStream s) @ new"
    using blocks_prefix [of s mid "map TextBlock ts"] by (auto elim: prefixE)
  have "map textEventShape new = concat (map (\<lambda>t. [ShStart, ShDelta t, ShEnd t]) ts)"
    using blocks_text_shape [of mid s ts] new by simp
  moreover have "concat (map textDeltas new) = ts"
    using blocks_text_delta [of mid s ts] new by simp
  ultimately show "\<exists>new. pushed (eventStream (translateMessage mid s (AssistantMsg (Some (map TextBlock ts))))) =
            pushed (eventStream s) @ new
      \<and> map textEventShape new = concat (map (\<lambda>t. [ShStart, ShDelta t, ShEnd t]) ts)
      \<and> concat (map textDeltas new) = ts
      \<and> concat (concat (map textDeltas new)) = concat ts"
    using new by auto
next
  obtain new where new:
    "pushed (eventStream (foldl (translateBlock_fwd mid) s (map TextBlock ts))) =
       pushed (eventStream s) @ new"
    using blocks_prefix_fwd [of s mid "map TextBlock ts"] by (auto elim: prefixE)
  have "map textEventShape new = concat (map (\<lambda>t. [ShStart, ShDelta t, ShEnd t]) ts)"
    using blocks_text_shape_fwd [of mid s ts] new by simp
  moreover have "concat (map textDeltas new) = ts"
    using blocks_text_delta_fwd [of mid s ts] new by simp
  ultimately show "\<exists>new. pushed (eventStream (translateMessage_fwd mid s (AssistantMsg (Some (map TextBlock ts))))) =
            pushed (eventStream s) @ new
      \<and> map textEventShape new = concat (map (\<lambda>t. [ShStart, ShDelta t, ShEnd t]) ts)
      \<and> concat (map textDeltas new) = ts
      \<and> concat (concat (map textDeltas new)) = concat ts"
    using new by auto
qed

theorem text_blocks_whole_deltas_witness:
  "(\<exists>new. pushed (eventStream (translateMessage ''m'' initialState
              (AssistantMsg (Some (map TextBlock [''Hello, '', ''world!''])))))  =
            pushed (eventStream initialState) @ new
      \<and> map textEventShape new =
          [ShStart, ShDelta ''Hello, '', ShEnd ''Hello, '', ShStart, ShDelta ''world!'', ShEnd ''world!'']
      \<and> concat (map textDeltas new) = [''Hello, '', ''world!'']
      \<and> concat (concat (map textDeltas new)) = ''Hello, world!'')"
  using text_blocks_whole_deltas [of "''m''" initialState "[''Hello, '', ''world!'']", THEN conjunct1]
  by simp

section \<open>Agreement of the two versions\<close>

lemma blocks_agree:
  "filter isToolUseBlock bs = [] \<Longrightarrow>
     foldl (translateBlock mid) s bs = foldl (translateBlock_fwd mid) s bs"
proof (induction bs arbitrary: s)
  case Nil
  show ?case by simp
next
  case (Cons b bs)
  then show ?case
    by (cases b) (simp_all add: translateBlock.simps(1) translateBlock_fwd.simps(1))
qed

lemma msg_agree:
  "toolFreeMsg m \<Longrightarrow> translateMessage mid s m = translateMessage_fwd mid s m"
  by (cases m rule: messageBlocks.cases)
     (simp_all add: blocks_agree translateMessage.simps(3) translateMessage_fwd.simps(3))

lemma msgs_agree:
  "filter (\<lambda>m. \<not> toolFreeMsg m) ms = [] \<Longrightarrow>
     foldl (translateMessage mid) s ms = foldl (translateMessage_fwd mid) s ms"
proof (induction ms arbitrary: s)
  case Nil
  show ?case by simp
next
  case (Cons m ms)
  then show ?case by (simp add: msg_agree split: if_splits)
qed

lemma stream_agree:
  "toolFree up \<Longrightarrow> translateStream mid up = translateStream_fwd mid up"
  by (cases up) (simp_all add: msgs_agree)

text \<open>
  Claim C9. When no assistant message of the upstream run has a tool\_use block and no
  result message has the stop reason \<^verbatim>\<open>tool_use\<close>, the suppressing and the
  forwarding version push the same events and end the stream alike, given the same
  output of the query function. (Timestamps are not part of the model.)
\<close>

theorem versions_agree_without_tool_use:
  "toolFree up \<Longrightarrow>
     translateStream mid up = translateStream_fwd mid up
     \<and> createCodeBuddyStreamFn (Some (\<lambda>p. up)) sdk m context streamOptions =
       createCodeBuddyStreamFn_fwd (Some (\<lambda>p. up)) sdk' m context streamOptions"
  by (simp add: stream_agree createCodeBuddyStreamFn_def createCodeBuddyStreamFn_fwd_def
        resolveQueryFn_def)

theorem versions_agree_without_tool_use_witness:
  "toolFree (Yields [SystemMsg,
       AssistantMsg (Some [TextBlock ''Hello'', ToolResultBlock ''t1'' (JStr ''ok'')]),
       ResultMsg (Some ''max_tokens'') None] Completes)
   \<and> translateStream ''m'' (Yields [SystemMsg,
       AssistantMsg (Some [TextBlock ''Hello'', ToolResultBlock ''t1'' (JStr ''ok'')]),
       ResultMsg (Some ''max_tokens'') None] Completes) =
     translateStream_fwd ''m'' (Yields [SystemMsg,
       AssistantMsg (Some [TextBlock ''Hello'', ToolResultBlock ''t1'' (JStr ''ok'')]),
       ResultMsg (Some ''max_tokens'') None] Completes)
   \<and> map textEventShape (pushed (translateStream_fwd ''m'' (Yields [SystemMsg,
       AssistantMsg (Some [TextBlock ''Hello'', ToolResultBlock ''t1'' (JStr ''ok'')]),
       ResultMsg (Some ''max_tokens'') None] Completes))) =
     [ShOther, ShStart, ShDelta ''Hello'', ShEnd ''Hello'', ShOther]"
proof -
  have tf: "toolFree (Yields [SystemMsg,
       AssistantMsg (Some [TextBlock ''Hello'', ToolResultBlock ''t1'' (JStr ''ok'')]),
       ResultMsg (Some ''max_tokens'') None] Completes)"
    by simp
  show ?thesis
    using tf versions_agree_without_tool_use [OF tf, of "''m''"]
    by (simp add: Let_def)
qed

section \<open>First and last event\<close>

lemma stream_ended [simp]:
  "ended (translateStream mid up) = 1"
  "ended (translateStream_fwd mid up) = 1"
proof -
  show "ended (translateStream mid up) = 1"
  proof (cases up)
    case (CallThrows err)
    then show ?thesis by simp
  next
    case (Yields msgs fin)
    then show ?thesis by (cases fin) (simp_all add: Let_def)
  qed
  show "ended (translateStream_fwd mid up) = 1"
  proof (cases up)
    case (CallThrows err)
    then show ?thesis by simp
  next
    case (Yields msgs fin)
    then show ?thesis by (cases fin) (simp_all add: Let_def)
  qed
qed

lemma stream_first:
  "firstEvent (pushed (translateStream mid (Yields msgs fin))) =
     Some (Start (createPartialMessage [] (Some createDefaultUsage) (Some mid)))"
proof -
  let ?s0 = "emit (Start (createPartialMessage [] (Some (currentUsage initialState)) (Some mid)))
               initialState"
  obtain new where "pushed (eventStream (foldl (translateMessage mid) ?s0 msgs)) =
      pushed (eventStream ?s0) @ new"
    using msgs_prefix [of ?s0 mid msgs] by (auto elim: prefixE)
  then show ?thesis by (cases fin) (simp_all add: Let_def firstEvent_def)
qed

lemma stream_first_fwd:
  "firstEvent (pushed (translateStream_fwd mid (Yields msgs fin))) =
     Some (Start (createPartialMessage [] (Some createDefaultUsage) (Some mid)))"
proof -
  let ?s0 = "emit (Start (createPartialMessage [] (Some (currentUsage initialState)) (Some mid)))
               initialState"
  obtain new where "pushed (eventStream (foldl (translateMessage_fwd mid) ?s0 msgs)) =
      pushed (eventStream ?s0) @ new"
    using msgs_prefix_fwd [of ?s0 mid msgs] by (auto elim: prefixE)
  then show ?thesis by (cases fin) (simp_all add: Let_def firstEvent_def)
qed

text \<open>
  Claim C1. The claim asks that, for every upstream sequence, the last event be a done or
  error event. The code misses this when the upstream sequence ends without a result
  message: done is pushed only for a result message and error only for a fault, and
  nothing is pushed when the loop over the upstream ends. The repository's own guide
  lists this among the known defects (the done event may not be pushed when the SDK
  stream ends without a result message, so that downstream may wait forever). At such
  an input, one assistant message with a text block and then the end of the sequence,
  both versions push start and the three text events and end the stream: no done or
  error event is pushed, and the last event is not terminal.
\<close>

theorem no_terminal_event_without_result:
  "\<not> lastIsTerminal (pushed (createCodeBuddyStreamFn
       (Some (\<lambda>p. Yields [AssistantMsg (Some [TextBlock ''Hello''])] Completes)) None
       \<lparr>model_id = ''m'', model_maxTokens = 8192\<rparr>
       \<lparr>messages = [\<lparr>msg_role = ''user'', msg_content = Some (ContentString ''Hi'')\<rparr>],
        systemPrompt = None\<rparr> None))
   \<and> filter isTerminal (pushed (createCodeBuddyStreamFn
       (Some (\<lambda>p. Yields [AssistantMsg (Some [TextBlock ''Hello''])] Completes)) None
       \<lparr>model_id = ''m'', model_maxTokens = 8192\<rparr>
       \<lparr>messages = [\<lparr>msg_role = ''user'', msg_content = Some (ContentString ''Hi'')\<rparr>],
        systemPrompt = None\<rparr> None)) = []
   \<and> ended (createCodeBuddyStreamFn
       (Some (\<lambda>p. Yields [AssistantMsg (Some [TextBlock ''Hello''])] Completes)) None
       \<lparr>model_id = ''m'', model_maxTokens = 8192\<rparr>
       \<lparr>messages = [\<lparr>msg_role = ''user'', msg_content = Some (ContentString ''Hi'')\<rparr>],
        systemPrompt = None\<rparr> None) = 1
   \<and> \<not> lastIsTerminal (pushed (createCodeBuddyStreamFn_fwd
       (Some (\<lambda>p. Yields [AssistantMsg (Some [TextBlock ''Hello''])] Completes)) None
       \<lparr>model_id = ''m'', model_maxTokens = 8192\<rparr>
       \<lparr>messages = [\<lparr>msg_role = ''user'', msg_content = Some (ContentString ''Hi'')\<rparr>],
        systemPrompt = None\<rparr> None))
   \<and> filter isTerminal (pushed (createCodeBuddyStreamFn_fwd
       (Some (\<lambda>p. Yields [AssistantMsg (Some [TextBlock ''Hello''])] Completes)) None
       \<lparr>model_id = ''m'', model_maxTokens = 8192\<rparr>
       \<lparr>messages = [\<lparr>msg_role = ''user'', msg_content = Some (ContentString ''Hi'')\<rparr>],
        systemPrompt = None\<rparr> None)) = []"
  by (simp add: createCodeBuddyStreamFn_def createCodeBuddyStreamFn_fwd_def resolveQueryFn_def
        Let_def lastIsTerminal_def)

text \<open>
  Claim C5 as it is stated fails on the code: the call of the query function stands
  inside the \<^verbatim>\<open>try\<close> block before the start event is pushed, so when an injected
  (hence resolved) query function throws on its call, the first and only event pushed
  is an error event.
\<close>

theorem first_event_start_counterexample:
  "resolveQueryFn (Some (\<lambda>p. CallThrows (ErrorInstance ''spawn codebuddy ENOENT''))) None \<noteq> None
   \<and> firstEvent (pushed (createCodeBuddyStreamFn
       (Some (\<lambda>p. CallThrows (ErrorInstance ''spawn codebuddy ENOENT''))) None
       \<lparr>model_id = ''m'', model_maxTokens = 8192\<rparr>
       \<lparr>messages = [\<lparr>msg_role = ''user'', msg_content = Some (ContentString ''Hi'')\<rparr>],
        systemPrompt = None\<rparr> None)) =
     Some (Error \<lparr>role = ''assistant'', content = [TextContent ''spawn codebuddy ENOENT''],
       provider = ''codebuddy'', model = ''m'', api = ''anthropic-messages'',
       stopReason = Stop, usage = createDefaultUsage\<rparr>)"
  by (simp add: createCodeBuddyStreamFn_def resolveQueryFn_def firstEvent_def errorEvent_def
        createPartialMessage_def)

text \<open>
  Claim C5, amended. When the query capability is resolved and the call of the query
  function returns an upstream sequence, the first event pushed is start, with empty
  content and zeroed usage. When the capability cannot be resolved, exactly one error
  event (the SDK is not found) is pushed and the stream is ended; when the capability
  is resolved and the call of the query function itself throws, exactly one error
  event with the text of the fault is pushed and the stream is ended. No other event
  is pushed in these two cases.
\<close>

theorem first_event_start_or_sole_error:
  "(case resolveQueryFn queryFn sdk of
      None \<Rightarrow>
        pushed (createCodeBuddyStreamFn queryFn sdk m context streamOptions) =
          [Error \<lparr>role = ''assistant'',
             content = [TextContent
               ''CodeBuddy SDK not found. Install it with: pnpm add @tencent-ai/agent-sdk''],
             provider = ''codebuddy'', model = [], api = ''anthropic-messages'',
             stopReason = Stop, usage = createDefaultUsage\<rparr>]
        \<and> ended (createCodeBuddyStreamFn queryFn sdk m context streamOptions) = 1
    | Some f \<Rightarrow>
        (case f (queryArgs m context streamOptions) of
           CallThrows err \<Rightarrow>
             pushed (createCodeBuddyStreamFn queryFn sdk m context streamOptions) =
               [Error \<lparr>role = ''assistant'', content = [TextContent (errorText err)],
                  provider = ''codebuddy'', model = model_id m, api = ''anthropic-messages'',
                  stopReason = Stop, usage = createDefaultUsage\<rparr>]
             \<and> ended (createCodeBuddyStreamFn queryFn sdk m context streamOptions) = 1
         | Yields msgs fin \<Rightarrow>
             firstEvent (pushed (createCodeBuddyStreamFn queryFn sdk m context streamOptions)) =
               Some (Start \<lparr>role = ''assistant'', content = [], provider = ''codebuddy'',
                 model = model_id m, api = ''anthropic-messages'', stopReason = Stop,
                 usage = \<lparr>input = 0, output = 0, cacheRead = 0, cacheWrite = 0, totalTokens = 0,
                   cost = \<lparr>cost_input = 0, cost_output = 0, cost_cacheRead = 0,
                     cost_cacheWrite = 0, cost_total = 0\<rparr>\<rparr>\<rparr>)))
   \<and> (case resolveQueryFn queryFn' sdk' of
      None \<Rightarrow>
        pushed (createCodeBuddyStreamFn_fwd queryFn' sdk' m context streamOptions) =
          [Error \<lparr>role = ''assistant'',
             content = [TextContent
               ''CodeBuddy SDK not found. Install it with: pnpm add @tencent-ai/agent-sdk''],
             provider = ''codebuddy'', model = [], api = ''anthropic-messages'',
             stopReason = Stop, usage = createDefaultUsage\<rparr>]
        \<and> ended (createCodeBuddyStreamFn_fwd queryFn' sdk' m context streamOptions) = 1
    | Some f \<Rightarrow>
        (case f (queryArgs_fwd m context streamOptions) of
           CallThrows err \<Rightarrow>
             pushed (createCodeBuddyStreamFn_fwd queryFn' sdk' m context streamOptions) =
               [Error \<lparr>role = ''assistant'', content = [TextContent (errorText err)],
                  provider = ''codebuddy'', model = model_id m, api = ''anthropic-messages'',
                  stopReason = Stop, usage = createDefaultUsage\<rparr>]
             \<and> ended (createCodeBuddyStreamFn_fwd queryFn' sdk' m context streamOptions) = 1
         | Yields msgs fin \<Rightarrow>
             firstEvent (pushed (createCodeBuddyStreamFn_fwd queryFn' sdk' m context streamOptions)) =
               Some (Start \<lparr>role = ''assistant'', content = [], provider = ''codebuddy'',
                 model = model_id m, api = ''anthropic-messages'', stopReason = Stop,
                 usage = \<lparr>input = 0, output = 0, cacheRead = 0, cacheWrite = 0, totalTokens = 0,
                   cost = \<lparr>cost_input = 0, cost_output = 0, cost_cacheRead = 0,
                     cost_cacheWrite = 0, cost_total = 0\<rparr>\<rparr>\<rparr>)))"
proof -
  have d: "createDefaultUsage = \<lparr>input = 0, output = 0, cacheRead = 0, cacheWrite = 0,
      totalTokens = 0, cost = \<lparr>cost_input = 0, cost_output = 0, cost_cacheRead = 0,
        cost_cacheWrite = 0, cost_total = 0\<rparr>\<rparr>"
    by (simp add: createDefaultUsage_def zeroCost_def)
  have a: "firstEvent (pushed (translateStream mid (Yields msgs fin))) =
      Some (Start \<lparr>role = ''assistant'', content = [], provider = ''codebuddy'',
        model = mid, api = ''anthropic-messages'', stopReason = Stop,
        usage = \<lparr>input = 0, output = 0, cacheRead = 0, cacheWrite = 0, totalTokens = 0,
          cost = \<lparr>cost_input = 0, cost_output = 0, cost_cacheRead = 0,
            cost_cacheWrite = 0, cost_total = 0\<rparr>\<rparr>\<rparr>)" for mid msgs fin
    using stream_first [of mid msgs fin] by (simp add: createPartialMessage_def d)
  have b: "firstEvent (pushed (translateStream_fwd mid (Yields msgs fin))) =
      Some (Start \<lparr>role = ''assistant'', content = [], provider = ''codebuddy'',
        model = mid, api = ''anthropic-messages'', stopReason = Stop,
        usage = \<lparr>input = 0, output = 0, cacheRead = 0, cacheWrite = 0, totalTokens = 0,
          cost = \<lparr>cost_input = 0, cost_output = 0, cost_cacheRead = 0,
            cost_cacheWrite = 0, cost_total = 0\<rparr>\<rparr>\<rparr>)" for mid msgs fin
    using stream_first_fwd [of mid msgs fin] by (simp add: createPartialMessage_def d)
  show ?thesis
    unfolding createCodeBuddyStreamFn_def createCodeBuddyStreamFn_fwd_def
    by (auto simp: a b errorEvent_def createPartialMessage_def
          simp del: translateStream.simps(2) translateStream_fwd.simps(2)
          split: option.split upstream.split)
qed

theorem first_event_start_or_sole_error_witness:
  "pushed (createCodeBuddyStreamFn None None \<lparr>model_id = ''m'', model_maxTokens = 8192\<rparr>
      \<lparr>messages = [], systemPrompt = None\<rparr> None) =
     [Error \<lparr>role = ''assistant'',
        content = [TextContent
          ''CodeBuddy SDK not found. Install it with: pnpm add @tencent-ai/agent-sdk''],
        provider = ''codebuddy'', model = [], api = ''anthropic-messages'',
        stopReason = Stop, usage = createDefaultUsage\<rparr>]
   \<and> ended (createCodeBuddyStreamFn None None \<lparr>model_id = ''m'', model_maxTokens = 8192\<rparr>
      \<lparr>messages = [], systemPrompt = None\<rparr> None) = 1
   \<and> firstEvent (pushed (createCodeBuddyStreamFn_fwd
        (Some (\<lambda>p. Yields [SystemMsg] (Throws (NonError ''closed'')))) None
        \<lparr>model_id = ''m'', model_maxTokens = 8192\<rparr> \<lparr>messages = [], systemPrompt = None\<rparr> None)) =
     Some (Start \<lparr>role = ''assistant'', content = [], provider = ''codebuddy'',
       model = ''m'', api = ''anthropic-messages'', stopReason = Stop,
       usage = \<lparr>input = 0, output = 0, cacheRead = 0, cacheWrite = 0, totalTokens = 0,
         cost = \<lparr>cost_input = 0, cost_output = 0, cost_cacheRead = 0,
           cost_cacheWrite = 0, cost_total = 0\<rparr>\<rparr>\<rparr>)"
  using first_event_start_or_sole_error [of None None
      "\<lparr>model_id = ''m'', model_maxTokens = 8192\<rparr>" "\<lparr>messages = [], systemPrompt = None\<rparr>" None
      "Some (\<lambda>p. Yields [SystemMsg] (Throws (NonError ''closed'')))" None]
  by (simp add: resolveQueryFn_def)

section \<open>The prompt\<close>

























end
